theory Spec2Isabelle
  imports Complex_Main
begin

section \<open>Sugarcane NIR prediction service: a shallow embedding\<close>

text \<open>
  The development follows \<^verbatim>\<open>src/trainer.py\<close> and \<^verbatim>\<open>src/backend/server.py\<close>.
  A Python float is read as the real number it stands for. Where the source itself adds
  and divides floats and a claim depends on the result (the sum and the quotient of the
  report, the mean of the fold scores), every operation rounds to the nearest binary64
  number, ties to even; the numbers that scipy and numpy compute inside the preprocessing
  are parameters; the noise injection is read in exact arithmetic. Overflow to infinity,
  NaN and the sign of zero are outside this model. Exceptions are values of type \<open>exn\<close>;
  a function that may raise returns \<open>exn + 'a\<close>, with \<open>Inl\<close> the exception.
\<close>

subsection \<open>Exceptions\<close>

text \<open>
  The exception classes that the two source files and the library calls they make can
  raise. A \<open>ValueError\<close> carries its message. \<open>ConfigurationError\<close> is the kind the
  specification names for preprocessing failures; no path of the source raises it.
\<close>

datatype exn =
    ValueError string
  | AxisError
  | JSONDecodeError
  | AttributeError
  | TypeError
  | IndexError
  | ZeroDivisionError
  | WebSocketDisconnect
  | ConfigurationError

text \<open>
  Sequencing: \<open>then_do r f\<close> is the exception of \<open>r\<close> when it raised, and otherwise
  goes on with \<open>f\<close> on its value.
\<close>

definition then_do :: "exn + 'a \<Rightarrow> ('a \<Rightarrow> exn + 'b) \<Rightarrow> exn + 'b" where
  "then_do r f = (case r of Inl e \<Rightarrow> Inl e | Inr v \<Rightarrow> f v)"

subsection \<open>Float arithmetic\<close>

text \<open>
  Rounding to the nearest integer, ties to the even one; the exponent of the binade of a
  number, no lower than that of the subnormal numbers; and the nearest binary64 number,
  which keeps 53 significant bits.
\<close>

definition round_half_even :: "real \<Rightarrow> int" where
  "round_half_even q =
     (let f = \<lfloor>q\<rfloor> in
      if q - of_int f < 1 / 2 then f
      else if q - of_int f > 1 / 2 then f + 1
      else if even f then f else f + 1)"

definition binade :: "real \<Rightarrow> int" where
  "binade x = max \<lfloor>log 2 \<bar>x\<bar>\<rfloor> (- 1022)"

definition round64 :: "real \<Rightarrow> real" where
  "round64 x =
     (if x = 0 then 0
      else of_int (round_half_even (x / 2 powr (of_int (binade x) - 52)))
             * 2 powr (of_int (binade x) - 52))"

text \<open>Float addition and division: the exact result, rounded.\<close>

definition fadd :: "real \<Rightarrow> real \<Rightarrow> real" where
  "fadd a b = round64 (a + b)"

definition fdiv :: "real \<Rightarrow> real \<Rightarrow> real" where
  "fdiv a b = round64 (a / b)"

text \<open>
  Adding the entries one after the other from 0, as the builtin \<^verbatim>\<open>sum\<close> does up to
  CPython 3.11 and as numpy does for an array of fewer than eight entries.
\<close>

definition float_sum :: "real list \<Rightarrow> real" where
  "float_sum xs = foldl fadd 0 xs"

text \<open>\<^verbatim>\<open>x / n\<close> for a float \<open>x\<close> and an int \<open>n\<close>.\<close>

definition float_div_int :: "real \<Rightarrow> nat \<Rightarrow> exn + real" where
  "float_div_int x n = (if n = 0 then Inl ZeroDivisionError else Inr (fdiv x (real n)))"


subsection \<open>Report aggregation (\<^verbatim>\<open>generate_report\<close>, server.py 138--174)\<close>

record ReportData =
  timestamp :: "real list"
  predicted_pol :: "real list"
  actual_pol :: "real list"

text \<open>
  The three figures the report prints: \<^verbatim>\<open>Total Samples Processed\<close>,
  \<^verbatim>\<open>Average Predicted Pol\<close> and \<^verbatim>\<open>Total Low-Pol Alerts\<close>. Their rendering on
  the PDF canvas (two decimals for the average) is not modelled.
\<close>

record report =
  total_samples :: nat
  avg_pol :: real
  breaches :: nat

definition generate_report :: "ReportData \<Rightarrow> exn + report" where
  "generate_report data =
     then_do (if predicted_pol data \<noteq> []
              then float_div_int (float_sum (predicted_pol data)) (length (predicted_pol data))
              else Inr 0) (\<lambda>avg.
     let threshold = 13.0 in
       Inr \<lparr> total_samples = length (predicted_pol data),
             avg_pol = avg,
             breaches = sum_list (map (\<lambda>p. 1) (filter (\<lambda>p. p < threshold) (predicted_pol data))) \<rparr>)"

subsection \<open>Arrays and the library calls of \<^verbatim>\<open>preprocess_spectra\<close>\<close>

text \<open>
  A numpy array of no dimension (a scalar), of one, or of two: \<open>Arr2 n rows\<close> has
  shape \<open>(length rows, n)\<close>.
\<close>

datatype ndarray = Arr0 real | Arr1 "real list" | Arr2 nat "real list list"

text \<open>\<^verbatim>\<open>x.shape[-1]\<close>: the length of the last axis; a scalar has an empty shape.\<close>

fun last_axis :: "ndarray \<Rightarrow> exn + nat" where
  "last_axis (Arr0 v) = Inl IndexError"
| "last_axis (Arr1 xs) = Inr (length xs)"
| "last_axis (Arr2 n rows) = Inr n"

definition window_length :: nat where "window_length = 15"

text \<open>
  The numbers the libraries compute are parameters, so that nothing is assumed of their
  rounding or of how the entries of a batch depend on one another:
  \<^item> \<open>sg_value rows i j\<close> is entry \<open>(i, j)\<close> of
    \<^verbatim>\<open>savgol_filter(x, window_length=15, polyorder=2, deriv=1)\<close> for the batch \<open>rows\<close>,
    and \<open>sg_value1 xs j\<close> its entry \<open>j\<close> for an array of one dimension;
  \<^item> \<open>mean_value rows i\<close> and \<open>std_value rows i\<close> are entry \<open>i\<close> of
    \<^verbatim>\<open>np.mean(a, axis=1, keepdims=True)\<close> and \<^verbatim>\<open>np.std(a, axis=1, keepdims=True)\<close>;
  \<^item> \<open>snv_value v m s\<close> is \<^verbatim>\<open>(v - m) / (s + 1e-8)\<close> for one entry.
\<close>

record numlib =
  sg_value :: "real list list \<Rightarrow> nat \<Rightarrow> nat \<Rightarrow> real"
  sg_value1 :: "real list \<Rightarrow> nat \<Rightarrow> real"
  mean_value :: "real list list \<Rightarrow> nat \<Rightarrow> real"
  std_value :: "real list list \<Rightarrow> nat \<Rightarrow> real"
  snv_value :: "real \<Rightarrow> real \<Rightarrow> real \<Rightarrow> real"

text \<open>
  \<^verbatim>\<open>scipy.signal.savgol_filter\<close> with the default \<^verbatim>\<open>mode='interp'\<close>: it refuses a
  window longer than the last axis, then filters, and fits the two edges after
  reshaping them to \<open>(15, -1)\<close>, which numpy refuses for an array without entries. The
  result has the shape of the input.
\<close>

fun filtered :: "numlib \<Rightarrow> ndarray \<Rightarrow> exn + ndarray" where
  "filtered lib (Arr0 v) = Inr (Arr0 v)"
| "filtered lib (Arr1 xs) = Inr (Arr1 (map (sg_value1 lib xs) [0..<length xs]))"
| "filtered lib (Arr2 n rows) =
     (if rows = []
      then Inl (ValueError ''cannot reshape array of size 0 into shape (15,newaxis)'')
      else Inr (Arr2 n (map (\<lambda>i. map (sg_value lib rows i) [0..<n]) [0..<length rows])))"

definition savgol_filter :: "numlib \<Rightarrow> ndarray \<Rightarrow> exn + ndarray" where
  "savgol_filter lib x =
     (case last_axis x of
        Inl e \<Rightarrow> Inl e
      | Inr len \<Rightarrow>
          if window_length > len
          then Inl (ValueError ''window_length must be less than or equal to the size of x'')
          else filtered lib x)"

text \<open>
  The mean and the standard deviation along axis 1: one value per row; an array of
  fewer than two dimensions has no axis 1.
\<close>

fun np_mean_axis1 :: "numlib \<Rightarrow> ndarray \<Rightarrow> exn + real list" where
  "np_mean_axis1 lib (Arr0 v) = Inl AxisError"
| "np_mean_axis1 lib (Arr1 xs) = Inl AxisError"
| "np_mean_axis1 lib (Arr2 n rows) = Inr (map (mean_value lib rows) [0..<length rows])"

fun np_std_axis1 :: "numlib \<Rightarrow> ndarray \<Rightarrow> exn + real list" where
  "np_std_axis1 lib (Arr0 v) = Inl AxisError"
| "np_std_axis1 lib (Arr1 xs) = Inl AxisError"
| "np_std_axis1 lib (Arr2 n rows) = Inr (map (std_value lib rows) [0..<length rows])"

text \<open>\<^verbatim>\<open>(X_sg - mean) / (std + 1e-8)\<close>, the column vectors broadcast along each row.\<close>

fun broadcast_snv :: "numlib \<Rightarrow> ndarray \<Rightarrow> real list \<Rightarrow> real list \<Rightarrow> ndarray" where
  "broadcast_snv lib (Arr2 n rows) ms ss =
     Arr2 n (map (\<lambda>(r, m, s). map (\<lambda>v. snv_value lib v m s) r) (zip rows (zip ms ss)))"
| "broadcast_snv lib (Arr1 xs) ms ss = Arr1 xs"
| "broadcast_snv lib (Arr0 v) ms ss = Arr0 v"

subsection \<open>\<^verbatim>\<open>preprocess_spectra\<close> (trainer.py 33--49)\<close>

definition preprocess_spectra :: "numlib \<Rightarrow> ndarray \<Rightarrow> exn + ndarray" where
  "preprocess_spectra lib X =
     then_do (savgol_filter lib X) (\<lambda>X_sg.
     then_do (np_mean_axis1 lib X_sg) (\<lambda>mean.
     then_do (np_std_axis1 lib X_sg) (\<lambda>std.
       Inr (broadcast_snv lib X_sg mean std))))"


subsection \<open>\<^verbatim>\<open>train_pls\<close> (trainer.py 51--69)\<close>







subsection \<open>JSON messages\<close>

text \<open>
  The value \<^verbatim>\<open>json.loads\<close> builds. An object keeps its members in the order of the
  text; a dict built from it keeps the last value of a repeated key. A received text
  frame either is a JSON text, given by the value it denotes, or is not one.
\<close>

datatype json =
    JNull
  | JBool bool
  | JNum real
  | JStr string
  | JArr "json list"
  | JObj "(string \<times> json) list"

datatype wire_text = NotJson string | JsonText json

fun json_loads :: "wire_text \<Rightarrow> exn + json" where
  "json_loads (NotJson t) = Inl JSONDecodeError"
| "json_loads (JsonText j) = Inr j"

text \<open>\<^verbatim>\<open>config.get(key, default)\<close>: only a dict has the method.\<close>

fun dict_get :: "json \<Rightarrow> string \<Rightarrow> json \<Rightarrow> exn + json" where
  "dict_get (JObj kvs) key dflt =
     Inr (case map_of (rev kvs) key of None \<Rightarrow> dflt | Some v \<Rightarrow> v)"
| "dict_get j key dflt = Inl AttributeError"

text \<open>A Python value used as a number: a float, an int, or a bool (an int).\<close>

fun py_number :: "json \<Rightarrow> real option" where
  "py_number (JNum r) = Some r"
| "py_number (JBool b) = Some (if b then 1 else 0)"
| "py_number j = None"

text \<open>\<^verbatim>\<open>v / 100.0\<close> and \<^verbatim>\<open>x < v\<close> for a float \<open>x\<close>: a \<open>TypeError\<close> when \<open>v\<close> is no number.\<close>

definition py_truediv :: "json \<Rightarrow> real \<Rightarrow> exn + real" where
  "py_truediv v d = (case py_number v of None \<Rightarrow> Inl TypeError | Some r \<Rightarrow> Inr (r / d))"

definition py_less :: "real \<Rightarrow> json \<Rightarrow> exn + bool" where
  "py_less x v = (case py_number v of None \<Rightarrow> Inl TypeError | Some r \<Rightarrow> Inr (x < r))"

subsection \<open>\<^verbatim>\<open>add_industrial_noise\<close> (server.py 61--64)\<close>

text \<open>
  The random draws of one call are inputs: \<open>gauss i\<close> is the \<open>i\<close>-th standard normal
  draw and \<open>unif\<close> the uniform draw in \<open>[0, 1)\<close>. \<^verbatim>\<open>np.random.normal(loc, scale, n)\<close>
  rejects a negative \<open>scale\<close>.
\<close>

definition np_random_normal :: "real \<Rightarrow> real \<Rightarrow> nat \<Rightarrow> (nat \<Rightarrow> real) \<Rightarrow> exn + real list" where
  "np_random_normal loc scale n z =
     (if scale < 0 then Inl (ValueError ''scale < 0'')
      else Inr (map (\<lambda>i. loc + scale * z i) [0..<n]))"

definition np_random_uniform :: "real \<Rightarrow> real \<Rightarrow> real \<Rightarrow> real" where
  "np_random_uniform low high u = low + (high - low) * u"

definition add_industrial_noise ::
  "real list \<Rightarrow> real \<Rightarrow> (nat \<Rightarrow> real) \<Rightarrow> real \<Rightarrow> exn + real list" where
  "add_industrial_noise spectrum noise_level z u =
     (case np_random_normal 0 noise_level (length spectrum) z of
        Inl e \<Rightarrow> Inl e
      | Inr noise \<Rightarrow>
          (let baseline_drift = np_random_uniform (- 0.01) 0.01 u in
           Inr (map (\<lambda>(s, n). s * (1 + n) + baseline_drift) (zip spectrum noise))))"

subsection \<open>\<^verbatim>\<open>ConnectionManager\<close> (server.py 67--82)\<close>

text \<open>The list of accepted sockets, each named by a number.\<close>

type_synonym ConnectionManager = "nat list"

definition connect :: "ConnectionManager \<Rightarrow> nat \<Rightarrow> ConnectionManager" where
  "connect active_connections websocket = active_connections @ [websocket]"

text \<open>\<^verbatim>\<open>list.remove\<close> drops the first occurrence and raises when there is none.\<close>

definition disconnect :: "ConnectionManager \<Rightarrow> nat \<Rightarrow> exn + ConnectionManager" where
  "disconnect active_connections websocket =
     (if websocket \<in> set active_connections
      then Inr (remove1 websocket active_connections)
      else Inl (ValueError ''list.remove(x): x not in list''))"

subsection \<open>\<^verbatim>\<open>websocket_endpoint\<close> (server.py 93--136)\<close>

text \<open>
  What the module has at hand once loaded: the numbers of the libraries it imports, the
  reference pool \<open>X_test\<close> (one row per sample), its true values \<open>y_test\<close>, and the
  two fitted models, each given by what its \<^verbatim>\<open>predict\<close> returns for one preprocessed
  row.
\<close>

record server =
  numerics :: numlib
  X_test :: "real list list"
  y_test :: "real list"
  pls_model :: "real list \<Rightarrow> real"
  iso_forest :: "real list \<Rightarrow> int"

text \<open>
  What one pass of the loop takes from outside: the outcome of
  \<^verbatim>\<open>receive_text\<close>, the random draws, and the three readings of \<^verbatim>\<open>time.time()\<close>
  in the order of the calls.
\<close>

datatype ws_event = Disconnected | Text wire_text

record tick_input =
  recv :: ws_event
  gauss :: "nat \<Rightarrow> real"
  unif :: real
  time_start :: real
  time_end :: real
  time_stamp :: real

text \<open>The outbound message; \<open>out_x\<close> is the value under the key \<^verbatim>\<open>"x"\<close>.\<close>

record payload =
  out_timestamp :: real
  out_actual_pol :: real
  out_predicted_pol :: real
  out_inference_ms :: real
  out_noisy_spectrum :: "real list"
  out_alert :: bool
  out_anomaly :: bool

definition receive_text :: "ws_event \<Rightarrow> exn + wire_text" where
  "receive_text ev = (case ev of Disconnected \<Rightarrow> Inl WebSocketDisconnect | Text t \<Rightarrow> Inr t)"

text \<open>Indexing an array or a list by a cursor that is never negative.\<close>

definition item :: "'a list \<Rightarrow> nat \<Rightarrow> exn + 'a" where
  "item xs i = (if i < length xs then Inr (xs ! i) else Inl IndexError)"

text \<open>
  \<^verbatim>\<open>model.predict(X)\<close> gives one value per row; \<^verbatim>\<open>float(np.squeeze(...))\<close> needs
  exactly one.
\<close>

fun predict_rows :: "(real list \<Rightarrow> 'a) \<Rightarrow> ndarray \<Rightarrow> 'a list" where
  "predict_rows f (Arr2 n rows) = map f rows"
| "predict_rows f (Arr1 xs) = []"
| "predict_rows f (Arr0 v) = []"

definition squeeze_float :: "real list \<Rightarrow> exn + real" where
  "squeeze_float ps = (case ps of [p] \<Rightarrow> Inr p | _ \<Rightarrow> Inl TypeError)"

text \<open>
  The body of the \<^verbatim>\<open>while True\<close> loop, lines 101 to 132: from the cursor and the
  inputs of this pass to the message sent and the next cursor, or to the exception
  raised.
\<close>

definition tick :: "server \<Rightarrow> nat \<Rightarrow> tick_input \<Rightarrow> exn + payload \<times> nat" where
  "tick srv i inp =
     then_do (receive_text (recv inp)) (\<lambda>data.
     then_do (json_loads data) (\<lambda>config.
     then_do (dict_get config ''noiseLevel'' (JNum 2.0)) (\<lambda>noise_pct.
     then_do (item (X_test srv) i) (\<lambda>raw_spectrum.
     then_do (item (y_test srv) i) (\<lambda>actual.
     then_do (py_truediv noise_pct 100.0) (\<lambda>noise_level.
     then_do (add_industrial_noise raw_spectrum noise_level (gauss inp) (unif inp)) (\<lambda>noisy_spectrum.
     then_do (preprocess_spectra (numerics srv) (Arr2 (length noisy_spectrum) [noisy_spectrum])) (\<lambda>X_live_prep.
     then_do (squeeze_float (predict_rows (pls_model srv) X_live_prep)) (\<lambda>pred_pol.
     then_do (item (predict_rows (iso_forest srv) X_live_prep) 0) (\<lambda>label.
     then_do (dict_get config ''threshold'' (JNum 13.0)) (\<lambda>threshold.
     then_do (py_less pred_pol threshold) (\<lambda>alert.
       Inr (\<lparr> out_timestamp = time_stamp inp,
              out_actual_pol = actual,
              out_predicted_pol = pred_pol,
              out_inference_ms = (time_end inp - time_start inp) * 1000,
              out_noisy_spectrum = noisy_spectrum,
              out_alert = alert,
              out_anomaly = (label = - 1) \<rparr>,
            (i + 1) mod length (X_test srv))))))))))))))"

text \<open>
  The state of one run of the endpoint: the manager's list, the cursor \<open>idx\<close>, the
  messages sent so far, and where the coroutine stands: still in the loop, returned
  through the \<^verbatim>\<open>except WebSocketDisconnect\<close> clause, or ended by an exception that
  nothing catches.
\<close>

datatype status = Active | Closed | Crashed exn

record endpoint =
  manager :: ConnectionManager
  idx :: nat
  sent :: "payload list"
  status :: status

definition accepted :: "ConnectionManager \<Rightarrow> nat \<Rightarrow> endpoint" where
  "accepted mgr websocket =
     \<lparr> manager = connect mgr websocket, idx = 0, sent = [], status = Active \<rparr>"

text \<open>
  The loop over the inputs of its successive passes. With no input left the coroutine
  waits in \<^verbatim>\<open>receive_text\<close>. Only \<open>WebSocketDisconnect\<close> is caught.
\<close>

fun run :: "server \<Rightarrow> nat \<Rightarrow> endpoint \<Rightarrow> tick_input list \<Rightarrow> endpoint" where
  "run srv websocket s [] = s"
| "run srv websocket s (inp # rest) =
     (case tick srv (idx s) inp of
        Inr (message, next) \<Rightarrow>
          run srv websocket (s\<lparr> idx := next, sent := sent s @ [message] \<rparr>) rest
      | Inl e \<Rightarrow>
          if e = WebSocketDisconnect
          then (case disconnect (manager s) websocket of
                  Inr mgr \<Rightarrow> s\<lparr> manager := mgr, status := Closed \<rparr>
                | Inl e' \<Rightarrow> s\<lparr> status := Crashed e' \<rparr>)
          else s\<lparr> status := Crashed e \<rparr>)"

definition websocket_endpoint :: "server \<Rightarrow> ConnectionManager \<Rightarrow> nat \<Rightarrow> tick_input list \<Rightarrow> endpoint" where
  "websocket_endpoint srv mgr websocket inputs = run srv websocket (accepted mgr websocket) inputs"

subsection \<open>Concrete instances\<close>

text \<open>
  The libraries in exact arithmetic, for the examples. In the interior the filter's
  output at \<open>i\<close> is the slope of the least-squares parabola through the 15 samples
  centred at \<open>i\<close>; the first and the last 7 outputs are the derivative of the parabola
  fitted to the first (respectively last) 15 samples, at their own positions.
\<close>

definition window_at :: "real list \<Rightarrow> nat \<Rightarrow> real list" where
  "window_at x start = take 15 (drop start x)"

definition fit_slope :: "real list \<Rightarrow> real" where
  "fit_slope w = (\<Sum>j\<leftarrow>[0..<15]. (real j - 7) * (w ! j)) / 280"

definition fit_curv :: "real list \<Rightarrow> real" where
  "fit_curv w =
     (15 * (\<Sum>j\<leftarrow>[0..<15]. (real j - 7) * (real j - 7) * (w ! j)) - 280 * (\<Sum>j\<leftarrow>[0..<15]. w ! j))
       / 61880"

definition fit_deriv :: "real list \<Rightarrow> real \<Rightarrow> real" where
  "fit_deriv w t = fit_slope w + 2 * fit_curv w * (t - 7)"

definition savgol_row :: "real list \<Rightarrow> real list" where
  "savgol_row x =
     (let n = length x in
      map (\<lambda>i. if i < 7 then fit_deriv (window_at x 0) (real i)
                else if n - 7 \<le> i then fit_deriv (window_at x (n - 15)) (real (i - (n - 15)))
                else fit_slope (window_at x (i - 7)))
          [0..<n])"

definition row_mean :: "real list \<Rightarrow> real" where
  "row_mean r = sum_list r / real (length r)"

definition row_std :: "real list \<Rightarrow> real" where
  "row_std r = sqrt (row_mean (map (\<lambda>v. (v - row_mean r) * (v - row_mean r)) r))"

definition exact_numlib :: numlib where
  "exact_numlib =
     \<lparr> sg_value = (\<lambda>rows i j. savgol_row (rows ! i) ! j),
       sg_value1 = (\<lambda>xs j. savgol_row xs ! j),
       mean_value = (\<lambda>rows i. row_mean (rows ! i)),
       std_value = (\<lambda>rows i. row_std (rows ! i)),
       snv_value = (\<lambda>v m s. (v - m) / (s + 1 / 10 ^ 8)) \<rparr>"


definition ramp14 :: "real list" where
  "ramp14 = [3, 1, 4, 1, 5, 9, 2, 6, 5, 3, 5, 8, 9, 7]"

text \<open>
  A server with a pool of five spectra of fifteen samples, whose true values are their
  own positions, a regression model that always predicts 15 and an anomaly model that
  never flags.
\<close>

definition demo_server :: server where
  "demo_server = \<lparr> numerics = exact_numlib,
                   X_test = replicate 5 (replicate 15 1), y_test = [0, 1, 2, 3, 4],
                   pls_model = (\<lambda>row. 15), iso_forest = (\<lambda>row. 1) \<rparr>"

text \<open>One pass that receives the text \<open>t\<close>, with every gaussian draw 1 and no drift.\<close>

definition demo_tick :: "wire_text \<Rightarrow> tick_input" where
  "demo_tick t = \<lparr> recv = Text t, gauss = (\<lambda>i. 1), unif = 1 / 2,
                  time_start = 0, time_end = 0, time_stamp = 0 \<rparr>"

text \<open>
  Two messages: \<^verbatim>\<open>{"noiseLevel": 5, "threshold": 20}\<close>, then the empty object
  \<^verbatim>\<open>{}\<close>.
\<close>

definition two_ticks :: "tick_input list" where
  "two_ticks = [demo_tick (JsonText (JObj [(''noiseLevel'', JNum 5), (''threshold'', JNum 20)])),
                demo_tick (JsonText (JObj []))]"

text \<open>Ten times the empty object.\<close>

definition ten_ticks :: "tick_input list" where
  "ten_ticks = map (\<lambda>k. demo_tick (JsonText (JObj []))) [0, 1, 2, 3, 4, 5, 6, 7, 8, 9 :: nat]"




section \<open>Properties\<close>

subsection \<open>Sequencing\<close>

lemma then_do_Inl [simp]: "then_do (Inl e) f = Inl e"
  by (simp add: then_do_def)

lemma then_do_Inr [simp]: "then_do (Inr v) f = f v"
  by (simp add: then_do_def)

lemma then_do_eq_Inr: "then_do r f = Inr y \<longleftrightarrow> (\<exists>v. r = Inr v \<and> f v = Inr y)"
  by (cases r) simp_all

subsection \<open>Float arithmetic\<close>



lemma binade_uminus [simp]: "binade (- x) = binade x"
  by (simp add: binade_def)












lemma round64_0 [simp]: "round64 0 = 0"
  by (simp add: round64_def)

subsection \<open>Report aggregation\<close>





text \<open>
  C8. With an empty sequence of predicted values the report is produced: the guard
  gives the average 0 without dividing, where the division itself would raise a
  division by zero; the sample count and the number of low-value alerts are 0.
\<close>

theorem report_empty:
  "generate_report \<lparr> timestamp = ts, predicted_pol = [], actual_pol = acts \<rparr>
     = Inr \<lparr> total_samples = 0, avg_pol = 0, breaches = 0 \<rparr>
   \<and> float_div_int (float_sum []) (length ([] :: real list)) = Inl ZeroDivisionError"
  by (simp add: generate_report_def float_div_int_def)

subsection \<open>Preprocessing\<close>

text \<open>
  A batch of one row that is long enough passes the filter and the normalisation and
  comes back as a batch of one row.
\<close>

lemma preprocess_one_row:
  "preprocess_spectra lib (Arr2 n [x]) =
     (if window_length > n
      then Inl (ValueError ''window_length must be less than or equal to the size of x'')
      else Inr (Arr2 n
        [map (\<lambda>v. snv_value lib v
                    (mean_value lib [map (sg_value lib [x] 0) [0..<n]] 0)
                    (std_value lib [map (sg_value lib [x] 0) [0..<n]] 0))
             (map (sg_value lib [x] 0) [0..<n])]))"
  by (simp add: preprocess_spectra_def savgol_filter_def)





text \<open>
  C9 (amended). For every input whose spectra are shorter than the window of 15 samples,
  preprocessing returns no result: it stops in the smoothing filter, before any
  normalisation, with the filter's own \<open>ValueError\<close> that says the window is longer than
  the data. The source has no \<open>ConfigurationError\<close>.
\<close>

theorem short_spectrum_raises:
  assumes "last_axis X = Inr n" and "n < window_length"
  shows "preprocess_spectra lib X
           = Inl (ValueError ''window_length must be less than or equal to the size of x'')"
  using assms by (simp add: preprocess_spectra_def savgol_filter_def)

theorem short_spectrum_raises_witness:
  "preprocess_spectra exact_numlib (Arr2 14 [ramp14])
     = Inl (ValueError ''window_length must be less than or equal to the size of x'')
   \<and> preprocess_spectra exact_numlib (Arr1 ramp14)
     = Inl (ValueError ''window_length must be less than or equal to the size of x'')"
  using short_spectrum_raises [of "Arr2 14 [ramp14]" 14 exact_numlib]
        short_spectrum_raises [of "Arr1 ramp14" 14 exact_numlib]
  by (simp add: window_length_def ramp14_def)

theorem short_spectrum_counterexample:
  "preprocess_spectra exact_numlib (Arr2 14 [ramp14])
     = Inl (ValueError ''window_length must be less than or equal to the size of x'')
   \<and> preprocess_spectra exact_numlib (Arr2 14 [ramp14]) \<noteq> Inl ConfigurationError"
  by (simp add: preprocess_one_row window_length_def)

subsection \<open>Model selection\<close>









subsection \<open>The loop body\<close>

lemma json_loads_Inr: "json_loads data = Inr config \<longleftrightarrow> data = JsonText config"
  by (cases data) auto

lemma receive_text_Inr: "receive_text ev = Inr data \<longleftrightarrow> ev = Text data"
  by (cases ev) (auto simp: receive_text_def)

lemma item_Inr: "item xs i = Inr v \<longleftrightarrow> i < length xs \<and> v = xs ! i"
  by (auto simp: item_def)

lemma tick_InrD:
  assumes "tick srv i inp = Inr (m, i')"
  shows "\<exists>config noise_pct noise_level threshold.
           recv inp = Text (JsonText config)
         \<and> dict_get config ''noiseLevel'' (JNum 2) = Inr noise_pct
         \<and> i < length (X_test srv) \<and> i < length (y_test srv)
         \<and> py_truediv noise_pct 100 = Inr noise_level
         \<and> add_industrial_noise (X_test srv ! i) noise_level (gauss inp) (unif inp)
             = Inr (out_noisy_spectrum m)
         \<and> out_actual_pol m = y_test srv ! i
         \<and> dict_get config ''threshold'' (JNum 13) = Inr threshold
         \<and> py_less (out_predicted_pol m) threshold = Inr (out_alert m)
         \<and> i' = (i + 1) mod length (X_test srv)"
  using assms
  by (auto simp: tick_def then_do_eq_Inr json_loads_Inr receive_text_Inr item_Inr)

lemma json_loads_Inl: "json_loads data = Inl e \<Longrightarrow> e = JSONDecodeError"
  by (cases data) auto

lemma dict_get_Inl: "dict_get c k d = Inl e \<Longrightarrow> e = AttributeError"
  by (cases c) auto

lemma py_truediv_Inl: "py_truediv v d = Inl e \<Longrightarrow> e = TypeError"
  by (auto simp: py_truediv_def split: option.splits)

lemma py_less_Inl: "py_less x v = Inl e \<Longrightarrow> e = TypeError"
  by (auto simp: py_less_def split: option.splits)

lemma add_noise_Inl: "add_industrial_noise sp nl z u = Inl e \<Longrightarrow> e = ValueError ''scale < 0''"
  by (auto simp: add_industrial_noise_def np_random_normal_def Let_def split: if_splits)

lemma tick_no_IndexError:
  assumes "i < length (X_test srv)" and "i < length (y_test srv)"
  shows "tick srv i inp \<noteq> Inl IndexError"
proof
  assume "tick srv i inp = Inl IndexError"
  then show False using assms
    by (auto simp: tick_def then_do_def receive_text_def item_def preprocess_one_row squeeze_float_def
        split: sum.splits ws_event.splits wire_text.splits if_splits
        dest: json_loads_Inl dict_get_Inl py_truediv_Inl py_less_Inl add_noise_Inl)
qed

subsection \<open>The loop\<close>

lemma run_sent_prefix: "\<exists>more. sent (run srv ws s ins) = sent s @ more"
proof (induction ins arbitrary: s)
  case Nil
  show ?case by simp
next
  case (Cons inp rest)
  show ?case
  proof (cases "tick srv (idx s) inp")
    case (Inl e)
    then show ?thesis by (simp split: sum.splits)
  next
    case (Inr r)
    obtain m nxt where r: "r = (m, nxt)" by (cases r)
    from Cons.IH [of "s\<lparr> idx := nxt, sent := sent s @ [m] \<rparr>"]
    obtain more where "sent (run srv ws (s\<lparr> idx := nxt, sent := sent s @ [m] \<rparr>) rest)
        = (sent s @ [m]) @ more" by auto
    with Inr r show ?thesis by simp
  qed
qed

lemma run_Active:
  assumes "status (run srv ws s ins) = Active"
  shows "status s = Active \<and> length (sent (run srv ws s ins)) = length (sent s) + length ins"
  using assms
proof (induction ins arbitrary: s)
  case Nil
  then show ?case by simp
next
  case (Cons inp rest)
  show ?case
  proof (cases "tick srv (idx s) inp")
    case (Inl e)
    with Cons.prems show ?thesis by (simp split: sum.splits if_splits)
  next
    case (Inr r)
    obtain m nxt where r: "r = (m, nxt)" by (cases r)
    with Inr Cons.prems
    have "status (run srv ws (s\<lparr> idx := nxt, sent := sent s @ [m] \<rparr>) rest) = Active" by simp
    from Cons.IH [OF this] Inr r show ?thesis by simp
  qed
qed

lemma run_append_Active:
  assumes "status (run srv ws s xs) = Active"
  shows "run srv ws s (xs @ ys) = run srv ws (run srv ws s xs) ys"
  using assms
proof (induction xs arbitrary: s)
  case Nil
  show ?case by simp
next
  case (Cons inp rest)
  show ?case
  proof (cases "tick srv (idx s) inp")
    case (Inl e)
    with Cons.prems show ?thesis by (simp split: sum.splits if_splits)
  next
    case (Inr r)
    obtain m nxt where r: "r = (m, nxt)" by (cases r)
    with Inr Cons.prems
    have "status (run srv ws (s\<lparr> idx := nxt, sent := sent s @ [m] \<rparr>) rest) = Active" by simp
    from Cons.IH [OF this] Inr r show ?thesis by simp
  qed
qed

text \<open>
  The \<open>j\<close>-th message sent from a state on is what the loop body makes of the \<open>j\<close>-th
  input at the cursor \<open>j\<close> steps further round the pool.
\<close>

lemma run_sent_tick:
  assumes "idx s < length (X_test srv)"
      and "j < length (sent (run srv ws s ins)) - length (sent s)"
  shows "j < length ins \<and>
         (\<exists>i'. tick srv ((idx s + j) mod length (X_test srv)) (ins ! j)
                 = Inr (sent (run srv ws s ins) ! (length (sent s) + j), i'))"
  using assms
proof (induction ins arbitrary: s j)
  case Nil
  then show ?case by simp
next
  case (Cons inp rest)
  show ?case
  proof (cases "tick srv (idx s) inp")
    case (Inl e)
    with Cons.prems show ?thesis by (simp split: sum.splits if_splits)
  next
    case (Inr r)
    obtain m nxt where r: "r = (m, nxt)" by (cases r)
    let ?s1 = "s\<lparr> idx := nxt, sent := sent s @ [m] \<rparr>"
    have step: "run srv ws s (inp # rest) = run srv ws ?s1 rest" using Inr r by simp
    from Inr r tick_InrD [of srv "idx s" inp m nxt]
    have nxt: "nxt = (idx s + 1) mod length (X_test srv)" by auto
    moreover have "0 < length (X_test srv)" using Cons.prems(1) by (cases "X_test srv") simp_all
    ultimately have nxt_lt: "idx ?s1 < length (X_test srv)" by simp
    obtain more where more: "sent (run srv ws ?s1 rest) = (sent s @ [m]) @ more"
      using run_sent_prefix [of srv ws ?s1 rest] by auto
    show ?thesis
    proof (cases j)
      case 0
      have "sent (run srv ws s (inp # rest)) ! (length (sent s) + 0) = m"
        using step more by (simp add: nth_append)
      with 0 Inr r Cons.prems(1) show ?thesis by auto
    next
      case (Suc j')
      have "j' < length (sent (run srv ws ?s1 rest)) - length (sent ?s1)"
        using Cons.prems(2) Suc step by simp
      from Cons.IH [OF nxt_lt this]
      obtain i' where j': "j' < length rest"
        and t: "tick srv ((idx ?s1 + j') mod length (X_test srv)) (rest ! j')
                 = Inr (sent (run srv ws ?s1 rest) ! (length (sent ?s1) + j'), i')" by auto
      have "(idx ?s1 + j') mod length (X_test srv) = (idx s + j) mod length (X_test srv)"
        using nxt Suc by (simp add: mod_add_left_eq)
      with t step Suc j' show ?thesis by auto
    qed
  qed
qed

lemma run_cursor:
  assumes "idx s < length (X_test srv)"
  shows "idx (run srv ws s ins)
           = (idx s + (length (sent (run srv ws s ins)) - length (sent s))) mod length (X_test srv)"
  using assms
proof (induction ins arbitrary: s)
  case Nil
  then show ?case by simp
next
  case (Cons inp rest)
  show ?case
  proof (cases "tick srv (idx s) inp")
    case (Inl e)
    with Cons.prems show ?thesis by (simp split: sum.splits if_splits)
  next
    case (Inr r)
    obtain m nxt where r: "r = (m, nxt)" by (cases r)
    let ?s1 = "s\<lparr> idx := nxt, sent := sent s @ [m] \<rparr>"
    have step: "run srv ws s (inp # rest) = run srv ws ?s1 rest" using Inr r by simp
    from Inr r tick_InrD [of srv "idx s" inp m nxt]
    have nxt: "nxt = (idx s + 1) mod length (X_test srv)" by auto
    moreover have "0 < length (X_test srv)" using Cons.prems(1) by (cases "X_test srv") simp_all
    ultimately have nxt_lt: "idx ?s1 < length (X_test srv)" by simp
    obtain more where more: "sent (run srv ws ?s1 rest) = (sent s @ [m]) @ more"
      using run_sent_prefix [of srv ws ?s1 rest] by auto
    have "idx (run srv ws ?s1 rest)
            = (idx ?s1 + (length (sent (run srv ws ?s1 rest)) - length (sent ?s1))) mod length (X_test srv)"
      by (rule Cons.IH [OF nxt_lt])
    also have "\<dots> = (idx s + (length (sent (run srv ws ?s1 rest)) - length (sent s))) mod length (X_test srv)"
      using nxt more by (simp add: mod_add_left_eq)
    finally show ?thesis using step by simp
  qed
qed

lemma run_no_IndexError:
  assumes "idx s < length (X_test srv)" and "length (y_test srv) = length (X_test srv)"
      and "status s \<noteq> Crashed IndexError"
  shows "status (run srv ws s ins) \<noteq> Crashed IndexError"
  using assms
proof (induction ins arbitrary: s)
  case Nil
  then show ?case by simp
next
  case (Cons inp rest)
  show ?case
  proof (cases "tick srv (idx s) inp")
    case (Inl e)
    have "e \<noteq> IndexError" using Inl tick_no_IndexError [of "idx s" srv inp] Cons.prems by auto
    with Inl Cons.prems show ?thesis
      by (auto simp: disconnect_def split: sum.splits if_splits)
  next
    case (Inr r)
    obtain m nxt where r: "r = (m, nxt)" by (cases r)
    let ?s1 = "s\<lparr> idx := nxt, sent := sent s @ [m] \<rparr>"
    from Inr r tick_InrD [of srv "idx s" inp m nxt]
    have nxt: "nxt = (idx s + 1) mod length (X_test srv)" by auto
    moreover have "0 < length (X_test srv)" using Cons.prems(1) by (cases "X_test srv") simp_all
    ultimately have nxt_lt: "idx ?s1 < length (X_test srv)" by simp
    have "status (run srv ws ?s1 rest) \<noteq> Crashed IndexError"
      using Cons.IH [OF nxt_lt] Cons.prems by simp
    with Inr r show ?thesis by simp
  qed
qed


lemma run_empty_pool: "X_test srv = [] \<Longrightarrow> sent (run srv ws s ins) = sent s"
  by (cases ins) (auto split: sum.splits dest: tick_InrD)

lemma cursor_period:
  fixes a n p :: nat
  assumes "a < p"
  shows "(a + n) mod p = a \<longleftrightarrow> p dvd n"
  using assms mod_eq_dvd_iff_nat [of a "a + n" p] by auto

lemma sent_tick:
  assumes "j < length (sent (websocket_endpoint srv mgr ws inputs))"
  shows "j < length inputs \<and> 0 < length (X_test srv) \<and>
         (\<exists>i'. tick srv (j mod length (X_test srv)) (inputs ! j)
                 = Inr (sent (websocket_endpoint srv mgr ws inputs) ! j, i'))"
proof -
  have pos: "0 < length (X_test srv)"
    using assms run_empty_pool [of srv ws "accepted mgr ws" inputs]
    by (cases "X_test srv") (simp_all add: websocket_endpoint_def accepted_def)
  then show ?thesis
    using assms run_sent_tick [of "accepted mgr ws" srv j ws inputs]
    by (simp add: websocket_endpoint_def accepted_def)
qed

lemma dict_get_absent:
  "key \<notin> fst ` set kvs \<Longrightarrow> dict_get (JObj kvs) key dflt = Inr dflt"
  by (simp add: map_of_eq_None_iff [THEN iffD2])

lemmas demo_simps = websocket_endpoint_def accepted_def connect_def disconnect_def
  demo_server_def demo_tick_def tick_def receive_text_def item_def py_truediv_def py_less_def
  add_industrial_noise_def np_random_normal_def np_random_uniform_def preprocess_one_row
  window_length_def squeeze_float_def

text \<open>
  C1 (amended). The endpoint keeps no configuration between passes. For every message
  sent in a session, the first or a later one, whose inbound message is an object that
  omits \<open>noiseLevel\<close>, the noise is drawn at the default 2.0 percent, and when it omits
  \<open>threshold\<close> the alert compares with the default 13.0, whatever earlier messages of the
  session supplied.
\<close>

theorem omitted_fields_use_defaults:
  assumes "j < length (sent (websocket_endpoint srv mgr ws inputs))"
      and "recv (inputs ! j) = Text (JsonText (JObj kvs))"
  shows "(''noiseLevel'' \<notin> fst ` set kvs \<longrightarrow>
            add_industrial_noise (X_test srv ! (j mod length (X_test srv))) (2 / 100)
              (gauss (inputs ! j)) (unif (inputs ! j))
            = Inr (out_noisy_spectrum (sent (websocket_endpoint srv mgr ws inputs) ! j)))
       \<and> (''threshold'' \<notin> fst ` set kvs \<longrightarrow>
            out_alert (sent (websocket_endpoint srv mgr ws inputs) ! j)
            = (out_predicted_pol (sent (websocket_endpoint srv mgr ws inputs) ! j) < 13))"
proof -
  let ?m = "sent (websocket_endpoint srv mgr ws inputs) ! j"
  from sent_tick [OF assms(1)] obtain i' where
    t: "tick srv (j mod length (X_test srv)) (inputs ! j) = Inr (?m, i')" by auto
  from tick_InrD [OF t] assms(2) obtain noise_pct noise_level threshold where
    np: "dict_get (JObj kvs) ''noiseLevel'' (JNum 2) = Inr noise_pct"
    and nl: "py_truediv noise_pct 100 = Inr noise_level"
    and noisy: "add_industrial_noise (X_test srv ! (j mod length (X_test srv))) noise_level
                  (gauss (inputs ! j)) (unif (inputs ! j)) = Inr (out_noisy_spectrum ?m)"
    and th: "dict_get (JObj kvs) ''threshold'' (JNum 13) = Inr threshold"
    and al: "py_less (out_predicted_pol ?m) threshold = Inr (out_alert ?m)" by auto
  have "add_industrial_noise (X_test srv ! (j mod length (X_test srv))) (2 / 100)
          (gauss (inputs ! j)) (unif (inputs ! j)) = Inr (out_noisy_spectrum ?m)"
    if absent: "''noiseLevel'' \<notin> fst ` set kvs"
  proof -
    have eq: "noise_level = 2 / 100"
      using np nl dict_get_absent [OF absent, of "JNum 2"] by (auto simp: py_truediv_def)
    show ?thesis using noisy by (simp only: eq)
  qed
  moreover have "out_alert ?m = (out_predicted_pol ?m < 13)"
    if absent: "''threshold'' \<notin> fst ` set kvs"
    using th al dict_get_absent [OF absent, of "JNum 13"] by (auto simp: py_less_def)
  ultimately show ?thesis by blast
qed

theorem omitted_fields_use_defaults_witness:
  "add_industrial_noise (replicate 15 1) (2 / 100) (\<lambda>i. 1) (1 / 2)
     = Inr (out_noisy_spectrum (sent (websocket_endpoint demo_server [] 0 two_ticks) ! 1))
   \<and> out_alert (sent (websocket_endpoint demo_server [] 0 two_ticks) ! 1) = False"
  using omitted_fields_use_defaults [of 1 demo_server "[]" 0 two_ticks "[]"]
  by (simp add: two_ticks_def demo_simps)

text \<open>
  The claim as written fails on \<open>two_ticks\<close>: the second pass predicts 15, below the 20
  supplied by the first message, and yet raises no alert; its noise is 2 percent, not
  the 5 percent supplied before.
\<close>

theorem omitted_fields_counterexample:
  "map out_predicted_pol (sent (websocket_endpoint demo_server [] 0 two_ticks)) = [15, 15]
   \<and> map out_alert (sent (websocket_endpoint demo_server [] 0 two_ticks)) = [True, False]
   \<and> map out_noisy_spectrum (sent (websocket_endpoint demo_server [] 0 two_ticks))
       = [replicate 15 (105 / 100), replicate 15 (102 / 100)]"
  by (simp add: two_ticks_def demo_simps map_replicate_const zip_replicate)

text \<open>
  C2 (amended). A text that is not JSON makes \<^verbatim>\<open>json.loads\<close> raise, and the endpoint
  catches nothing but a disconnect: the session ends at that message with the decoding
  error, sends nothing for it, handles none of the messages that follow, and stays in the
  manager's list.
\<close>

theorem malformed_message_ends_session:
  assumes "status (websocket_endpoint srv mgr ws pre) = Active"
      and "recv inp = Text (NotJson t)"
  shows "websocket_endpoint srv mgr ws (pre @ inp # rest)
           = (websocket_endpoint srv mgr ws pre)\<lparr> status := Crashed JSONDecodeError \<rparr>"
proof -
  have "tick srv i inp = Inl JSONDecodeError" for i
    using assms(2) by (simp add: tick_def receive_text_def)
  then show ?thesis
    using run_append_Active [of srv ws "accepted mgr ws" pre "inp # rest"] assms(1)
    by (simp add: websocket_endpoint_def)
qed

theorem malformed_message_ends_session_witness:
  "status (websocket_endpoint demo_server [] 0
      [demo_tick (JsonText (JObj [])), demo_tick (NotJson ''{''), demo_tick (JsonText (JObj []))])
     = Crashed JSONDecodeError
   \<and> length (sent (websocket_endpoint demo_server [] 0
      [demo_tick (JsonText (JObj [])), demo_tick (NotJson ''{''), demo_tick (JsonText (JObj []))])) = 1"
  using malformed_message_ends_session [of demo_server "[]" 0 "[demo_tick (JsonText (JObj []))]"
      "demo_tick (NotJson ''{'')" "''{''" "[demo_tick (JsonText (JObj []))]"]
  by (simp add: demo_simps)

theorem malformed_message_counterexample:
  "status (websocket_endpoint demo_server [] 0
      [demo_tick (NotJson ''{''), demo_tick (JsonText (JObj []))]) = Crashed JSONDecodeError
   \<and> sent (websocket_endpoint demo_server [] 0
      [demo_tick (NotJson ''{''), demo_tick (JsonText (JObj []))]) = []
   \<and> length (sent (websocket_endpoint demo_server [] 0 [demo_tick (JsonText (JObj []))])) = 1"
  by (simp add: demo_simps)

text \<open>
  C4. With a non-empty pool of samples and as many true values, at every moment of a
  session the cursor is below the pool size and equals the number of passes completed so
  far modulo the pool size; the \<open>j\<close>-th message reports the true value at position
  \<open>j mod poolSize\<close>; no lookup raises an index error; and after further completed
  passes the cursor is back where it was exactly when their number is a multiple of the
  pool size. With five samples, ten passes report the positions 0 to 4 twice over.
\<close>

theorem cursor_cycles:
  fixes srv mgr ws inputs
  defines "s \<equiv> websocket_endpoint srv mgr ws inputs"
  defines "p \<equiv> length (X_test srv)"
  assumes "X_test srv \<noteq> []" and "length (y_test srv) = length (X_test srv)"
  shows "idx s < p
       \<and> idx s = length (sent s) mod p
       \<and> (status s = Active \<longrightarrow> idx s = length inputs mod p)
       \<and> (\<forall>j < length (sent s). out_actual_pol (sent s ! j) = y_test srv ! (j mod p))
       \<and> status s \<noteq> Crashed IndexError
       \<and> (\<forall>more. status (run srv ws s more) = Active \<longrightarrow>
             (idx (run srv ws s more) = idx s \<longleftrightarrow> p dvd length more))"
proof -
  have pos: "0 < p" using assms(3) by (simp add: p_def)
  have start: "idx (accepted mgr ws) < length (X_test srv)"
    using assms(3) by (simp add: accepted_def)
  have cur: "idx s = length (sent s) mod p"
    using run_cursor [OF start, of ws inputs]
    by (simp add: s_def p_def websocket_endpoint_def accepted_def)
  then have lt: "idx s < p" using pos by simp
  have act: "status s = Active \<longrightarrow> idx s = length inputs mod p"
    using cur run_Active [of srv ws "accepted mgr ws" inputs]
    by (auto simp: s_def websocket_endpoint_def accepted_def)
  have pol: "\<forall>j < length (sent s). out_actual_pol (sent s ! j) = y_test srv ! (j mod p)"
  proof (intro allI impI)
    fix j assume "j < length (sent s)"
    then obtain i' where "tick srv (j mod p) (inputs ! j) = Inr (sent s ! j, i')"
      using sent_tick [of j srv mgr ws inputs] by (auto simp: s_def p_def)
    from tick_InrD [OF this] show "out_actual_pol (sent s ! j) = y_test srv ! (j mod p)" by auto
  qed
  have noerr: "status s \<noteq> Crashed IndexError"
    using run_no_IndexError [OF start assms(4), of ws inputs]
    by (simp add: s_def websocket_endpoint_def accepted_def)
  have per: "\<forall>more. status (run srv ws s more) = Active \<longrightarrow>
             (idx (run srv ws s more) = idx s \<longleftrightarrow> p dvd length more)"
  proof (intro allI impI)
    fix more assume a: "status (run srv ws s more) = Active"
    from run_Active [OF a]
    have "length (sent (run srv ws s more)) = length (sent s) + length more" by simp
    moreover have "idx (run srv ws s more)
        = (idx s + (length (sent (run srv ws s more)) - length (sent s))) mod p"
      using run_cursor [of s srv ws more] lt by (simp add: p_def)
    ultimately have "idx (run srv ws s more) = (idx s + length more) mod p" by simp
    then show "idx (run srv ws s more) = idx s \<longleftrightarrow> p dvd length more"
      using cursor_period [OF lt, of "length more"] by simp
  qed
  from lt cur act pol noerr per show ?thesis by blast
qed

theorem cursor_cycles_witness:
  "idx (websocket_endpoint demo_server [] 0 ten_ticks) = 0
   \<and> status (websocket_endpoint demo_server [] 0 ten_ticks) = Active
   \<and> map out_actual_pol (sent (websocket_endpoint demo_server [] 0 ten_ticks))
       = [0, 1, 2, 3, 4, 0, 1, 2, 3, 4]"
  using cursor_cycles [of demo_server "[]" 0 ten_ticks]
  by (simp add: ten_ticks_def demo_simps)

text \<open>
  C5. In every message sent, the alert flag is true exactly when the predicted value is
  strictly below the threshold in force for that pass (the message's \<open>threshold\<close>, or
  13.0 when it has none); at equality the flag is false.
\<close>

theorem alert_iff_below_threshold:
  assumes "j < length (sent (websocket_endpoint srv mgr ws inputs))"
  shows "\<exists>config threshold t.
           recv (inputs ! j) = Text (JsonText config)
         \<and> dict_get config ''threshold'' (JNum 13) = Inr threshold
         \<and> py_number threshold = Some t
         \<and> (out_alert (sent (websocket_endpoint srv mgr ws inputs) ! j)
              \<longleftrightarrow> out_predicted_pol (sent (websocket_endpoint srv mgr ws inputs) ! j) < t)
         \<and> (out_predicted_pol (sent (websocket_endpoint srv mgr ws inputs) ! j) = t
              \<longrightarrow> \<not> out_alert (sent (websocket_endpoint srv mgr ws inputs) ! j))"
proof -
  let ?m = "sent (websocket_endpoint srv mgr ws inputs) ! j"
  from sent_tick [OF assms(1)] obtain i' where
    t: "tick srv (j mod length (X_test srv)) (inputs ! j) = Inr (?m, i')" by auto
  from tick_InrD [OF t] obtain config threshold where
    c: "recv (inputs ! j) = Text (JsonText config)"
    and th: "dict_get config ''threshold'' (JNum 13) = Inr threshold"
    and al: "py_less (out_predicted_pol ?m) threshold = Inr (out_alert ?m)" by auto
  from al obtain t where "py_number threshold = Some t" "out_alert ?m = (out_predicted_pol ?m < t)"
    by (auto simp: py_less_def split: option.splits)
  with c th show ?thesis by auto
qed

theorem alert_iff_below_threshold_witness:
  "out_predicted_pol (sent (websocket_endpoint demo_server [] 0
       [demo_tick (JsonText (JObj [(''threshold'', JNum 15)]))]) ! 0) = 15
   \<and> out_alert (sent (websocket_endpoint demo_server [] 0
       [demo_tick (JsonText (JObj [(''threshold'', JNum 15)]))]) ! 0) = False
   \<and> out_alert (sent (websocket_endpoint demo_server [] 0
       [demo_tick (JsonText (JObj [(''threshold'', JNum 16)]))]) ! 0) = True"
  using alert_iff_below_threshold [of 0 demo_server "[]" 0
          "[demo_tick (JsonText (JObj [(''threshold'', JNum 15)]))]"]
        alert_iff_below_threshold [of 0 demo_server "[]" 0
          "[demo_tick (JsonText (JObj [(''threshold'', JNum 16)]))]"]
  by (simp add: demo_simps)

text \<open>
  C10. A negative \<open>noiseLevel\<close> is not checked: in a session with a non-empty pool,
  the pass that receives one stops in the gaussian sampler, which rejects the negative
  scale; nothing catches the error, so no message is sent for that pass and the session
  ends there.
\<close>

theorem negative_noise_aborts:
  assumes "status (websocket_endpoint srv mgr ws pre) = Active"
      and "X_test srv \<noteq> []"
      and "length (y_test srv) = length (X_test srv)"
      and "recv inp = Text (JsonText (JObj kvs))"
      and "map_of (rev kvs) ''noiseLevel'' = Some (JNum r)"
      and "r < 0"
  shows "tick srv (idx (websocket_endpoint srv mgr ws pre)) inp = Inl (ValueError ''scale < 0'')
       \<and> websocket_endpoint srv mgr ws (pre @ inp # rest)
           = (websocket_endpoint srv mgr ws pre)\<lparr> status := Crashed (ValueError ''scale < 0'') \<rparr>"
proof -
  let ?s = "websocket_endpoint srv mgr ws pre"
  have "idx (accepted mgr ws) < length (X_test srv)"
    using assms(2) by (simp add: accepted_def)
  from run_cursor [OF this, of ws pre] assms(2)
  have lt: "idx ?s < length (X_test srv)" by (simp add: websocket_endpoint_def)
  have t: "tick srv (idx ?s) inp = Inl (ValueError ''scale < 0'')"
    using assms(3-6) lt
    by (simp add: tick_def receive_text_def item_def py_truediv_def add_industrial_noise_def
        np_random_normal_def)
  then show ?thesis
    using run_append_Active [of srv ws "accepted mgr ws" pre "inp # rest"] assms(1)
    by (simp add: websocket_endpoint_def)
qed

theorem negative_noise_aborts_witness:
  "status (websocket_endpoint demo_server [] 0
      [demo_tick (JsonText (JObj [])), demo_tick (JsonText (JObj [(''noiseLevel'', JNum (- 1))])),
       demo_tick (JsonText (JObj []))]) = Crashed (ValueError ''scale < 0'')
   \<and> length (sent (websocket_endpoint demo_server [] 0
      [demo_tick (JsonText (JObj [])), demo_tick (JsonText (JObj [(''noiseLevel'', JNum (- 1))])),
       demo_tick (JsonText (JObj []))])) = 1"
  using negative_noise_aborts [of demo_server "[]" 0 "[demo_tick (JsonText (JObj []))]"
      "demo_tick (JsonText (JObj [(''noiseLevel'', JNum (- 1))]))" "[(''noiseLevel'', JNum (- 1))]"
      "- 1" "[demo_tick (JsonText (JObj []))]"]
  by (simp add: demo_simps)

end
